theory Spec2Isabelle
  imports Main
begin

section \<open>Data model\<close>

text \<open>
  The response shapes declared at the end of the source file. The source keeps them
  ``intentionally sparse''; the records below hold the fields that \<open>StripeHelper\<close>
  reads. A field is an \<open>option\<close> where the TypeScript type marks it optional or where
  the code itself tests it for presence (\<open>!paymentIntent.id\<close>, \<open>!pi.latest_charge\<close>,
  \<open>!latestCharge.payment_method_details\<close>, \<open>charge.payment_intent\<close>); \<open>None\<close> is
  JavaScript's \<open>undefined\<close>/\<open>null\<close>. The field \<open>id\<close> is suffixed with the name of
  its type, since \<open>id\<close> is the identity function of HOL.
\<close>

record PaymentMethodDetails =
  type :: string

record Charge =
  id_Charge :: string
  payment_intent :: "string option"
  payment_method_details :: "PaymentMethodDetails option"

text \<open>The list objects of the API: \<open>{object: "list", data: [...]}\<close>.\<close>

record 'a StripeList =
  data :: "'a list"

record PaymentIntent =
  id_PaymentIntent :: "string option"
  latest_charge :: "string option"
  charges :: "Charge StripeList option"

record Customer =
  id_Customer :: string
  email :: string

section \<open>JavaScript primitives\<close>

text \<open>\<open>s.startsWith(p)\<close>.\<close>

definition startsWith :: "string \<Rightarrow> string \<Rightarrow> bool" where
  "startsWith s p = (take (length p) s = p)"

text \<open>
  Truthiness of a value that is a string or \<open>undefined\<close>: \<open>undefined\<close> and the empty
  string are falsy, every other string is truthy.
\<close>

definition truthy :: "string option \<Rightarrow> bool" where
  "truthy v = (case v of None \<Rightarrow> False | Some s \<Rightarrow> s \<noteq> [])"

section \<open>The API client and its effects\<close>

text \<open>
  A thrown value (the value a promise is rejected with). The client is untyped
  (\<open>stripe: any\<close>) and the catch blocks take \<open>err: any\<close>, so a rejection may carry
  an object or nothing: \<open>Error m\<close> is a thrown object with its message,
  \<open>Undefined\<close> and \<open>Null\<close> are the two values without properties, and
  \<open>TypeError\<close> is the error object that the engine raises when a property of
  \<open>undefined\<close> or \<open>null\<close> is read.
\<close>

datatype error = Error string | TypeError | Undefined | Null

text \<open>
  The three operations of \<open>this.stripe\<close> that the helper calls. The client is an
  external collaborator: each operation is a parameter that, from the state \<open>'s\<close> of
  the remote service, returns a record or throws, and leaves a new state, so that
  two fetches of one identifier may answer differently. \<open>charges.retrieve\<close> takes a
  string or \<open>undefined\<close>, since the source passes \<open>pi.latest_charge\<close> unchecked.
\<close>

record 's Stripe =
  charges_retrieve :: "string option \<Rightarrow> 's \<Rightarrow> (error + Charge) \<times> 's"
  paymentIntents_retrieve :: "string \<Rightarrow> 's \<Rightarrow> (error + PaymentIntent) \<times> 's"
  customers_search :: "string \<Rightarrow> 's \<Rightarrow> (error + Customer StripeList) \<times> 's"

datatype call =
  ChargesRetrieve "string option"
| PaymentIntentsRetrieve string
| CustomersSearch string

text \<open>
  The world of one invocation: the network calls made so far, in order, each with the
  error it failed with (if any), and the state of the remote service.
\<close>

record 's world =
  calls :: "(call \<times> error option) list"
  remote :: 's

definition init :: "'s \<Rightarrow> 's world" where
  "init s = \<lparr>calls = [], remote = s\<rparr>"

text \<open>
  An \<open>async\<close> computation: from a world it either throws (\<open>Inl\<close>) or returns a value
  (\<open>Inr\<close>), and leaves a world.
\<close>

type_synonym ('s, 'a) promise = "'s world \<Rightarrow> (error + 'a) \<times> 's world"

definition resolve :: "'a \<Rightarrow> ('s, 'a) promise" where
  "resolve a w = (Inr a, w)"

definition reject :: "error \<Rightarrow> ('s, 'a) promise" where
  "reject e w = (Inl e, w)"

text \<open>\<open>const x = await m; f x\<close>: a throw of \<open>m\<close> skips \<open>f\<close>.\<close>

definition await :: "('s, 'a) promise \<Rightarrow> ('a \<Rightarrow> ('s, 'b) promise) \<Rightarrow> ('s, 'b) promise" where
  "await m f w = (case m w of (Inl e, w') \<Rightarrow> (Inl e, w') | (Inr a, w') \<Rightarrow> f a w')"

text \<open>\<open>try { m } catch (err) { h err }\<close>.\<close>

definition try_catch :: "('s, 'a) promise \<Rightarrow> (error \<Rightarrow> ('s, 'a) promise) \<Rightarrow> ('s, 'a) promise" where
  "try_catch m h w = (case m w of (Inl e, w') \<Rightarrow> h e w' | (Inr a, w') \<Rightarrow> (Inr a, w'))"

text \<open>One network call: the operation runs on the remote state and the call is logged.\<close>

definition network :: "call \<Rightarrow> ('s \<Rightarrow> (error + 'a) \<times> 's) \<Rightarrow> ('s, 'a) promise" where
  "network c op w =
     (case op (remote w) of
        (r, s') \<Rightarrow>
          (r, \<lparr>calls = calls w @ [(c, case r of Inl e \<Rightarrow> Some e | Inr _ \<Rightarrow> None)],
               remote = s'\<rparr>))"

section \<open>StripeHelper\<close>

text \<open>
  The class in its latest revision, the one with the fallback fetch of the latest
  charge and with \<open>getCustomersByEmail\<close>. An object of the class holds the client
  and the debug flag.
\<close>

record 's StripeHelper =
  stripe :: "'s Stripe"
  debug :: bool

text \<open>
  The \<open>console.log\<close> lines under \<open>this.debug\<close> print to the console, which is not
  part of the model. Those in the \<open>try\<close> blocks and the one of the catch block of
  \<open>getCustomersByEmail\<close> (\<open>console.log(err)\<close>) only pass on values that are
  already at hand and cannot throw; they are left out. The line of the catch blocks of
  \<open>isUSBankTransfer\<close> and \<open>isPiUsBankTransfer\<close> is kept, since it reads a property
  of the caught value:
  \<^verbatim>\<open>
  if(this.debug) console.log(`${logPrefix}error ...; error was: ${err.message}`);
  \<close>
  Reading \<open>err.message\<close> raises a \<open>TypeError\<close> when \<open>err\<close> is \<open>undefined\<close> or
  \<open>null\<close>; for every other value the line prints and execution goes on.
\<close>

definition log_err_message :: "bool \<Rightarrow> error \<Rightarrow> ('s, unit) promise" where
  "log_err_message dbg err =
     (if dbg then
        (case err of
           Undefined \<Rightarrow> reject TypeError
         | Null \<Rightarrow> reject TypeError
         | Error m \<Rightarrow> resolve ()
         | TypeError \<Rightarrow> resolve ())
      else resolve ())"

subsection \<open>isUSBankTransfer\<close>

text \<open>
  The variable \<open>derivedPi\<close> after the two prefix tests:
  \<^verbatim>\<open>
  let derivedPi: string | undefined = undefined;
  if (chargeId.startsWith("pi_")) derivedPi = chargeId;
  if (chargeId.startsWith("py_")) {
      const charge = await this.stripe.charges.retrieve(chargeId);
      if (charge.payment_intent) derivedPi = charge.payment_intent;
  }
  \<close>
\<close>

definition derivedPi :: "'s StripeHelper \<Rightarrow> string \<Rightarrow> ('s, string option) promise" where
  "derivedPi helper chargeId =
     (let d = (if startsWith chargeId ''pi_'' then Some chargeId else None) in
      if startsWith chargeId ''py_'' then
        await (network (ChargesRetrieve (Some chargeId))
                 (charges_retrieve (stripe helper) (Some chargeId)))
          (\<lambda>charge.
             if truthy (payment_intent charge) then resolve (payment_intent charge)
             else resolve d)
      else resolve d)"

text \<open>
  The variable \<open>latestCharge\<close> after the lookup in the embedded list and the fallback
  fetch:
  \<^verbatim>\<open>
  let latestCharge = pi.charges?.data.find(c => c.id === pi.latest_charge);
  if (!latestCharge) {
      latestCharge = await this.stripe.charges.retrieve(pi.latest_charge);
  }
  \<close>
\<close>

definition latestCharge :: "'s StripeHelper \<Rightarrow> PaymentIntent \<Rightarrow> ('s, Charge option) promise" where
  "latestCharge helper pi =
     (case (case charges pi of
              None \<Rightarrow> None
            | Some cl \<Rightarrow> find (\<lambda>c. Some (id_Charge c) = latest_charge pi) (data cl)) of
        Some c \<Rightarrow> resolve (Some c)
      | None \<Rightarrow>
          await (network (ChargesRetrieve (latest_charge pi))
                   (charges_retrieve (stripe helper) (latest_charge pi)))
            (\<lambda>c. resolve (Some c)))"

text \<open>
  The final test, the same two lines in \<open>isUSBankTransfer\<close> and in
  \<open>isPiUsBankTransfer\<close>:
  \<^verbatim>\<open>
  if (!latestCharge || !latestCharge.payment_method_details) return false;
  return latestCharge.payment_method_details.type === "us_bank_account"
  \<close>
\<close>

definition classification :: "Charge option \<Rightarrow> bool" where
  "classification lc =
     (case lc of
        None \<Rightarrow> False
      | Some c \<Rightarrow>
          (case payment_method_details c of
             None \<Rightarrow> False
           | Some d \<Rightarrow> type d = ''us_bank_account''))"

definition isUSBankTransfer :: "'s StripeHelper \<Rightarrow> string \<Rightarrow> ('s, bool) promise" where
  "isUSBankTransfer helper chargeId =
     try_catch
       (await (derivedPi helper chargeId)
          (\<lambda>d. case d of
                  None \<Rightarrow> resolve False
                | Some p \<Rightarrow>
                    if p = [] then resolve False
                    else
                      await (network (PaymentIntentsRetrieve p)
                               (paymentIntents_retrieve (stripe helper) p))
                        (\<lambda>pi.
                           if charges pi = None \<and> \<not> truthy (latest_charge pi)
                           then resolve False
                           else
                             await (latestCharge helper pi)
                               (\<lambda>lc. resolve (classification lc)))))
       (\<lambda>err. await (log_err_message (debug helper) err) (\<lambda>_. resolve False))"

subsection \<open>isPiUsBankTransfer\<close>

definition isPiUsBankTransfer :: "'s StripeHelper \<Rightarrow> PaymentIntent \<Rightarrow> ('s, bool) promise" where
  "isPiUsBankTransfer helper paymentIntent =
     (case id_PaymentIntent paymentIntent of
        None \<Rightarrow> resolve False
      | Some i \<Rightarrow>
          if i = [] \<or> \<not> startsWith i ''pi_'' then resolve False
          else
            (case charges paymentIntent of
               None \<Rightarrow> resolve False
             | Some cl \<Rightarrow>
                 try_catch
                   (resolve
                      (classification
                         (find (\<lambda>c. Some (id_Charge c) = latest_charge paymentIntent)
                            (data cl))))
                   (\<lambda>err. await (log_err_message (debug helper) err) (\<lambda>_. resolve False))))"

subsection \<open>getCustomersByEmail\<close>

text \<open>The query is the template string \<^verbatim>\<open>email:"${email}"\<close>.\<close>

definition getCustomersByEmail ::
    "'s StripeHelper \<Rightarrow> string \<Rightarrow> ('s, Customer list option) promise" where
  "getCustomersByEmail helper email_arg =
     (let query = ''email:'' @ [CHR 0x22] @ email_arg @ [CHR 0x22] in
      try_catch
        (await (network (CustomersSearch query) (customers_search (stripe helper) query))
           (\<lambda>searchResult. resolve (Some (data searchResult))))
        (\<lambda>err. resolve None))"

section \<open>A test double\<close>

text \<open>
  A stateless client for the scenarios: four charges and four payment intents are
  known, every other identifier is rejected, and the customer search throws.
\<close>

definition bank_details :: "PaymentMethodDetails option" where
  "bank_details = Some \<lparr>type = ''us_bank_account''\<rparr>"

definition demo_charges_retrieve :: "string option \<Rightarrow> unit \<Rightarrow> (error + Charge) \<times> unit" where
  "demo_charges_retrieve cid s =
     (if cid = Some ''py_999'' then
        Inr \<lparr>id_Charge = ''py_999'', payment_intent = None, payment_method_details = None\<rparr>
      else if cid = Some ''py_777'' then
        Inr \<lparr>id_Charge = ''py_777'', payment_intent = Some ''pi_123'',
             payment_method_details = bank_details\<rparr>
      else if cid = Some ''ch_2'' then
        Inr \<lparr>id_Charge = ''ch_2'', payment_intent = Some ''pi_456'',
             payment_method_details = Some \<lparr>type = ''card''\<rparr>\<rparr>
      else if cid = Some ''ch_3'' then
        Inr \<lparr>id_Charge = ''ch_3'', payment_intent = Some ''pi_789'',
             payment_method_details = bank_details\<rparr>
      else Inl (Error ''No such charge''), s)"

definition charge_1 :: Charge where
  "charge_1 = \<lparr>id_Charge = ''ch_1'', payment_intent = Some ''pi_123'',
                payment_method_details = bank_details\<rparr>"

definition pi_123 :: PaymentIntent where
  "pi_123 = \<lparr>id_PaymentIntent = Some ''pi_123'', latest_charge = Some ''ch_1'',
              charges = Some \<lparr>data = [charge_1]\<rparr>\<rparr>"

definition pi_456 :: PaymentIntent where
  "pi_456 = \<lparr>id_PaymentIntent = Some ''pi_456'', latest_charge = Some ''ch_2'',
              charges = Some \<lparr>data = []\<rparr>\<rparr>"

definition pi_789 :: PaymentIntent where
  "pi_789 = \<lparr>id_PaymentIntent = Some ''pi_789'', latest_charge = Some ''ch_3'',
              charges = None\<rparr>"

definition pi_000 :: PaymentIntent where
  "pi_000 = \<lparr>id_PaymentIntent = Some ''pi_000'', latest_charge = None, charges = None\<rparr>"

definition demo_paymentIntents_retrieve ::
    "string \<Rightarrow> unit \<Rightarrow> (error + PaymentIntent) \<times> unit" where
  "demo_paymentIntents_retrieve p s =
     (if p = ''pi_123'' then Inr pi_123
      else if p = ''pi_456'' then Inr pi_456
      else if p = ''pi_789'' then Inr pi_789
      else if p = ''pi_000'' then Inr pi_000
      else Inl (Error ''No such payment_intent''), s)"

definition demo_stripe :: "unit Stripe" where
  "demo_stripe = \<lparr>charges_retrieve = demo_charges_retrieve,
                   paymentIntents_retrieve = demo_paymentIntents_retrieve,
                   customers_search = (\<lambda>q s. (Inl (Error ''search failed''), s))\<rparr>"

definition demo :: "unit StripeHelper" where
  "demo = \<lparr>stripe = demo_stripe, debug = False\<rparr>"

text \<open>A helper whose customer search finds nobody.\<close>

definition demo_empty :: "unit StripeHelper" where
  "demo_empty =
     \<lparr>stripe = demo_stripe\<lparr>customers_search := (\<lambda>q s. (Inr \<lparr>data = []\<rparr>, s))\<rparr>,
      debug = False\<rparr>"

text \<open>
  A helper with \<open>DEBUG=true\<close> over a client whose payment-intent fetch rejects with no
  value (\<open>Promise.reject()\<close>).
\<close>

definition demo_reject :: "unit StripeHelper" where
  "demo_reject =
     \<lparr>stripe = demo_stripe\<lparr>paymentIntents_retrieve := (\<lambda>p s. (Inl Undefined, s))\<rparr>,
      debug = True\<rparr>"

section \<open>Properties\<close>

subsection \<open>Unfolding the model\<close>

lemmas model_defs =
  isUSBankTransfer_def isPiUsBankTransfer_def getCustomersByEmail_def derivedPi_def
  latestCharge_def classification_def log_err_message_def try_catch_def await_def
  resolve_def reject_def network_def init_def startsWith_def truthy_def

lemmas demo_defs =
  demo_def demo_empty_def demo_reject_def demo_stripe_def demo_charges_retrieve_def
  demo_paymentIntents_retrieve_def
  pi_123_def pi_456_def pi_789_def pi_000_def charge_1_def bank_details_def

subsection \<open>Prefixes and resolution\<close>

lemma startsWith_pi_not_py: "startsWith s ''pi_'' \<Longrightarrow> \<not> startsWith s ''py_''"
  by (auto simp: startsWith_def)

lemma startsWith_not_Nil: "startsWith s ''pi_'' \<Longrightarrow> s \<noteq> []"
  by (auto simp: startsWith_def)

lemma derivedPi_pi:
  "startsWith chargeId ''pi_'' \<Longrightarrow> derivedPi helper chargeId w = (Inr (Some chargeId), w)"
  by (simp add: derivedPi_def startsWith_pi_not_py resolve_def)

lemma derivedPi_py:
  assumes py: "startsWith chargeId ''py_''"
    and r: "charges_retrieve (stripe helper) (Some chargeId) (remote w) = (r, s1)"
  shows "derivedPi helper chargeId w =
     (case r of
        Inl e \<Rightarrow> Inl e
      | Inr charge \<Rightarrow> Inr (if truthy (payment_intent charge) then payment_intent charge else None),
      \<lparr>calls = calls w @ [(ChargesRetrieve (Some chargeId), case r of Inl e \<Rightarrow> Some e | Inr _ \<Rightarrow> None)],
       remote = s1\<rparr>)"
proof -
  have npi: "\<not> startsWith chargeId ''pi_''"
    using py startsWith_pi_not_py by blast
  show ?thesis
    by (cases r) (simp_all add: derivedPi_def py npi await_def network_def r resolve_def)
qed

lemma derivedPi_other:
  "\<not> startsWith chargeId ''pi_'' \<Longrightarrow> \<not> startsWith chargeId ''py_'' \<Longrightarrow>
   derivedPi helper chargeId w = (Inr None, w)"
  by (simp add: derivedPi_def resolve_def)

subsection \<open>The final test and the embedded list\<close>

lemma classification_Some:
  "classification (Some c) =
     (\<exists>d. payment_method_details c = Some d \<and> type d = ''us_bank_account'')"
  by (simp add: classification_def split: option.splits)

lemma find_member:
  "c \<in> set xs \<Longrightarrow> P c \<Longrightarrow> \<exists>c'. find P xs = Some c'"
  by (induction xs) auto

lemma find_no_member: "\<forall>c\<in>set xs. \<not> P c \<Longrightarrow> find P xs = None"
  by (simp add: find_None_iff)

lemma isPiUsBankTransfer_eq:
  "isPiUsBankTransfer helper p w =
     (Inr (\<exists>i cl. id_PaymentIntent p = Some i \<and> startsWith i ''pi_'' \<and> charges p = Some cl \<and>
             classification (find (\<lambda>c. Some (id_Charge c) = latest_charge p) (data cl))), w)"
  by (auto simp: isPiUsBankTransfer_def resolve_def try_catch_def
           dest: startsWith_not_Nil split: option.splits)

lemma latestCharge_found:
  "charges pi = Some cl \<Longrightarrow> find (\<lambda>c. Some (id_Charge c) = latest_charge pi) (data cl) = Some c \<Longrightarrow>
   latestCharge helper pi w = (Inr (Some c), w)"
  by (simp add: latestCharge_def resolve_def)

lemma latestCharge_fallback:
  assumes nf: "(case charges pi of None \<Rightarrow> None
    | Some cl \<Rightarrow> find (\<lambda>c. Some (id_Charge c) = latest_charge pi) (data cl)) = None"
    and r: "charges_retrieve (stripe helper) (latest_charge pi) (remote w) = (r, s')"
  shows "latestCharge helper pi w =
     (case r of Inl e \<Rightarrow> Inl e | Inr c \<Rightarrow> Inr (Some c),
      \<lparr>calls = calls w @ [(ChargesRetrieve (latest_charge pi), case r of Inl e \<Rightarrow> Some e | Inr _ \<Rightarrow> None)],
       remote = s'\<rparr>)"
  by (cases r) (simp_all add: latestCharge_def nf resolve_def await_def network_def r)

subsection \<open>The paths of isUSBankTransfer\<close>

lemma isUSBankTransfer_threw:
  "derivedPi helper chargeId w = (Inl e, w1) \<Longrightarrow>
   isUSBankTransfer helper chargeId w =
     (if debug helper \<and> (e = Undefined \<or> e = Null) then Inl TypeError else Inr False, w1)"
  by (cases e; cases "debug helper")
     (simp_all add: isUSBankTransfer_def try_catch_def await_def resolve_def reject_def
        log_err_message_def)

lemma isUSBankTransfer_underived:
  "derivedPi helper chargeId w = (Inr d, w1) \<Longrightarrow> \<not> truthy d \<Longrightarrow>
   isUSBankTransfer helper chargeId w = (Inr False, w1)"
  by (cases d) (simp_all add: isUSBankTransfer_def try_catch_def await_def resolve_def truthy_def)

lemma isUSBankTransfer_fetch_failed:
  "derivedPi helper chargeId w = (Inr (Some p), w1) \<Longrightarrow> p \<noteq> [] \<Longrightarrow>
   paymentIntents_retrieve (stripe helper) p (remote w1) = (Inl e, s2) \<Longrightarrow>
   isUSBankTransfer helper chargeId w =
     (if debug helper \<and> (e = Undefined \<or> e = Null) then Inl TypeError else Inr False,
      \<lparr>calls = calls w1 @ [(PaymentIntentsRetrieve p, Some e)], remote = s2\<rparr>)"
  by (cases e; cases "debug helper")
     (simp_all add: isUSBankTransfer_def try_catch_def await_def resolve_def reject_def
        log_err_message_def network_def)

lemma isUSBankTransfer_fetched:
  assumes d: "derivedPi helper chargeId w = (Inr (Some p), w1)" and p: "p \<noteq> []"
    and f: "paymentIntents_retrieve (stripe helper) p (remote w1) = (Inr pi, s2)"
  shows "isUSBankTransfer helper chargeId w =
     (let w2 = \<lparr>calls = calls w1 @ [(PaymentIntentsRetrieve p, None)], remote = s2\<rparr> in
      if charges pi = None \<and> \<not> truthy (latest_charge pi) then (Inr False, w2)
      else case latestCharge helper pi w2 of
             (Inl e, w3) \<Rightarrow>
               (if debug helper \<and> (e = Undefined \<or> e = Null) then Inl TypeError
                else Inr False, w3)
           | (Inr lc, w3) \<Rightarrow> (Inr (classification lc), w3))"
proof -
  let ?w2 = "\<lparr>calls = calls w1 @ [(PaymentIntentsRetrieve p, None)], remote = s2\<rparr>"
  obtain r3 w3 where l: "latestCharge helper pi ?w2 = (r3, w3)"
    by (cases "latestCharge helper pi ?w2")
  show ?thesis
  proof (cases r3)
    case (Inl e)
    with d p f l show ?thesis
      by (cases e; cases "debug helper")
         (simp_all add: isUSBankTransfer_def try_catch_def await_def resolve_def reject_def
            log_err_message_def network_def Let_def)
  next
    case (Inr lc)
    with d p f l show ?thesis
      by (simp add: isUSBankTransfer_def try_catch_def await_def resolve_def network_def
            Let_def)
  qed
qed

lemma isUSBankTransfer_calls_after_derived:
  assumes d: "derivedPi helper chargeId w = (Inr (Some p), w1)" and p: "p \<noteq> []"
  shows "\<exists>outcome rest. calls (snd (isUSBankTransfer helper chargeId w))
           = calls w1 @ (PaymentIntentsRetrieve p, outcome) # rest"
proof -
  obtain r s2 where f: "paymentIntents_retrieve (stripe helper) p (remote w1) = (r, s2)"
    by (cases "paymentIntents_retrieve (stripe helper) p (remote w1)")
  show ?thesis
  proof (cases r)
    case (Inl e)
    with isUSBankTransfer_fetch_failed[OF d p] f show ?thesis by simp
  next
    case (Inr pi)
    let ?w2 = "\<lparr>calls = calls w1 @ [(PaymentIntentsRetrieve p, None)], remote = s2\<rparr>"
    from Inr f have f': "paymentIntents_retrieve (stripe helper) p (remote w1) = (Inr pi, s2)" by simp
    note eq = isUSBankTransfer_fetched[OF d p f']
    have lc: "\<exists>n. calls (snd (latestCharge helper pi ?w2)) = calls ?w2 @ n"
      by (auto simp: latestCharge_def resolve_def await_def network_def
               split: option.splits prod.splits sum.splits)
    then obtain n where n: "calls (snd (latestCharge helper pi ?w2)) = calls ?w2 @ n" ..
    show ?thesis
    proof (cases "charges pi = None \<and> \<not> truthy (latest_charge pi)")
      case True
      with eq show ?thesis by simp
    next
      case False
      obtain r3 w3 where l: "latestCharge helper pi ?w2 = (r3, w3)"
        by (cases "latestCharge helper pi ?w2")
      with n have "calls w3 = calls w1 @ (PaymentIntentsRetrieve p, None) # n" by simp
      with eq False l show ?thesis by (cases r3) (simp_all add: Let_def)
    qed
  qed
qed

subsection \<open>Classification\<close>

text \<open>
  C1. For every charge record \<open>c\<close>, the final test is true exactly when \<open>c\<close> has
  payment-method details whose \<open>type\<close> is the literal \<open>us_bank_account\<close>, and false
  when the details are absent. It is the result of \<open>isPiUsBankTransfer\<close> when \<open>c\<close>
  is the entry of the embedded list found for \<open>latest_charge\<close>, and the result of
  \<open>isUSBankTransfer\<close> when \<open>c\<close> is that entry of the fetched payment intent or the
  charge returned by the fallback fetch.
\<close>

theorem classification_us_bank_account:
  "(classification (Some c) \<longleftrightarrow>
      (\<exists>d. payment_method_details c = Some d \<and> type d = ''us_bank_account''))
   \<and> (payment_method_details c = None \<longrightarrow> \<not> classification (Some c))
   \<and> (\<forall>i cl. id_PaymentIntent paymentIntent = Some i \<and> startsWith i ''pi_''
         \<and> charges paymentIntent = Some cl
         \<and> find (\<lambda>x. Some (id_Charge x) = latest_charge paymentIntent) (data cl) = Some c
        \<longrightarrow> fst (isPiUsBankTransfer helper paymentIntent w') = Inr (classification (Some c)))
   \<and> (\<forall>p w1 pi s2.
         derivedPi helper chargeId w = (Inr (Some p), w1) \<and> p \<noteq> []
         \<and> paymentIntents_retrieve (stripe helper) p (remote w1) = (Inr pi, s2)
        \<longrightarrow>
         (\<forall>cl. charges pi = Some cl
            \<and> find (\<lambda>x. Some (id_Charge x) = latest_charge pi) (data cl) = Some c
           \<longrightarrow> fst (isUSBankTransfer helper chargeId w) = Inr (classification (Some c)))
         \<and> (\<forall>s3. (charges pi = None \<and> truthy (latest_charge pi)
                  \<or> (\<exists>cl. charges pi = Some cl
                       \<and> find (\<lambda>x. Some (id_Charge x) = latest_charge pi) (data cl) = None))
               \<and> charges_retrieve (stripe helper) (latest_charge pi) s2 = (Inr c, s3)
              \<longrightarrow> fst (isUSBankTransfer helper chargeId w) = Inr (classification (Some c))))"
proof (intro conjI allI impI)
  show "classification (Some c) \<longleftrightarrow>
      (\<exists>d. payment_method_details c = Some d \<and> type d = ''us_bank_account'')"
    by (rule classification_Some)
next
  assume "payment_method_details c = None"
  then show "\<not> classification (Some c)" by (simp add: classification_def)
next
  fix i cl
  assume "id_PaymentIntent paymentIntent = Some i \<and> startsWith i ''pi_''
         \<and> charges paymentIntent = Some cl
         \<and> find (\<lambda>x. Some (id_Charge x) = latest_charge paymentIntent) (data cl) = Some c"
  then show "fst (isPiUsBankTransfer helper paymentIntent w') = Inr (classification (Some c))"
    by (simp add: isPiUsBankTransfer_eq)
next
  fix p w1 pi s2 cl
  assume a: "derivedPi helper chargeId w = (Inr (Some p), w1) \<and> p \<noteq> []
         \<and> paymentIntents_retrieve (stripe helper) p (remote w1) = (Inr pi, s2)"
    and b: "charges pi = Some cl
            \<and> find (\<lambda>x. Some (id_Charge x) = latest_charge pi) (data cl) = Some c"
  from a have "isUSBankTransfer helper chargeId w =
     (let w2 = \<lparr>calls = calls w1 @ [(PaymentIntentsRetrieve p, None)], remote = s2\<rparr> in
      if charges pi = None \<and> \<not> truthy (latest_charge pi) then (Inr False, w2)
      else case latestCharge helper pi w2 of
             (Inl e, w3) \<Rightarrow>
               (if debug helper \<and> (e = Undefined \<or> e = Null) then Inl TypeError
                else Inr False, w3)
           | (Inr lc, w3) \<Rightarrow> (Inr (classification lc), w3))"
    by (intro isUSBankTransfer_fetched) simp_all
  with b show "fst (isUSBankTransfer helper chargeId w) = Inr (classification (Some c))"
    by (simp add: latestCharge_found[of pi cl c])
next
  fix p w1 pi s2 s3
  assume a: "derivedPi helper chargeId w = (Inr (Some p), w1) \<and> p \<noteq> []
         \<and> paymentIntents_retrieve (stripe helper) p (remote w1) = (Inr pi, s2)"
    and b: "(charges pi = None \<and> truthy (latest_charge pi)
                  \<or> (\<exists>cl. charges pi = Some cl
                       \<and> find (\<lambda>x. Some (id_Charge x) = latest_charge pi) (data cl) = None))
               \<and> charges_retrieve (stripe helper) (latest_charge pi) s2 = (Inr c, s3)"
  let ?w2 = "\<lparr>calls = calls w1 @ [(PaymentIntentsRetrieve p, None)], remote = s2\<rparr>"
  from a have eq: "isUSBankTransfer helper chargeId w =
     (let w2 = ?w2 in
      if charges pi = None \<and> \<not> truthy (latest_charge pi) then (Inr False, w2)
      else case latestCharge helper pi w2 of
             (Inl e, w3) \<Rightarrow>
               (if debug helper \<and> (e = Undefined \<or> e = Null) then Inl TypeError
                else Inr False, w3)
           | (Inr lc, w3) \<Rightarrow> (Inr (classification lc), w3))"
    by (intro isUSBankTransfer_fetched) simp_all
  from b have nf: "(case charges pi of None \<Rightarrow> None
    | Some cl \<Rightarrow> find (\<lambda>c. Some (id_Charge c) = latest_charge pi) (data cl)) = None"
    by auto
  from b have "charges_retrieve (stripe helper) (latest_charge pi) (remote ?w2) = (Inr c, s3)"
    by simp
  from latestCharge_fallback[OF nf this] b eq
  show "fst (isUSBankTransfer helper chargeId w) = Inr (classification (Some c))"
    by auto
qed

text \<open>
  At the first scenario (\<open>pi_123\<close>, the charge embedded), at \<open>pi_789\<close> (no embedded
  list, the charge fetched), for the upper-case variant of the literal and for absent
  details.
\<close>

theorem classification_us_bank_account_witness:
  "startsWith ''pi_123'' ''pi_''
   \<and> find (\<lambda>x. Some (id_Charge x) = latest_charge pi_123) [charge_1] = Some charge_1
   \<and> classification (Some charge_1)
   \<and> fst (isPiUsBankTransfer demo pi_123 (init ())) = Inr True
   \<and> fst (isUSBankTransfer demo ''pi_123'' (init ())) = Inr True
   \<and> charges_retrieve (stripe demo) (latest_charge pi_789) () =
        (Inr \<lparr>id_Charge = ''ch_3'', payment_intent = Some ''pi_789'',
              payment_method_details = bank_details\<rparr>, ())
   \<and> fst (isUSBankTransfer demo ''pi_789'' (init ())) = Inr True
   \<and> \<not> classification
          (Some (charge_1\<lparr>payment_method_details := Some \<lparr>type = ''US_BANK_ACCOUNT''\<rparr>\<rparr>))
   \<and> \<not> classification (Some (charge_1\<lparr>payment_method_details := None\<rparr>))"
proof -
  note embedded = classification_us_bank_account
    [where c = charge_1 and paymentIntent = pi_123 and w' = "init ()" and helper = demo
       and chargeId = "''pi_123''" and w = "init ()"]
  note fallback = classification_us_bank_account
    [where c = "\<lparr>id_Charge = ''ch_3'', payment_intent = Some ''pi_789'',
                  payment_method_details = bank_details\<rparr>"
       and paymentIntent = pi_123 and w' = "init ()" and helper = demo
       and chargeId = "''pi_789''" and w = "init ()"]
  note variant = classification_us_bank_account
    [where c = "charge_1\<lparr>payment_method_details := Some \<lparr>type = ''US_BANK_ACCOUNT''\<rparr>\<rparr>"
       and paymentIntent = pi_123 and w' = "init ()" and helper = demo
       and chargeId = "''pi_123''" and w = "init ()"]
  note absent = classification_us_bank_account
    [where c = "charge_1\<lparr>payment_method_details := None\<rparr>"
       and paymentIntent = pi_123 and w' = "init ()" and helper = demo
       and chargeId = "''pi_123''" and w = "init ()"]
  have e: "derivedPi demo ''pi_123'' (init ()) = (Inr (Some ''pi_123''), init ())"
    by (simp add: model_defs)
  have f: "paymentIntents_retrieve (stripe demo) ''pi_123'' (remote (init ())) = (Inr pi_123, ())"
    by (simp add: demo_defs)
  have g: "id_PaymentIntent pi_123 = Some ''pi_123'' \<and> charges pi_123 = Some \<lparr>data = [charge_1]\<rparr>
    \<and> find (\<lambda>x. Some (id_Charge x) = latest_charge pi_123) (data \<lparr>data = [charge_1]\<rparr>) = Some charge_1"
    by (simp add: demo_defs)
  have sw: "startsWith ''pi_123'' ''pi_''" by (simp add: startsWith_def)
  have c1: "classification (Some charge_1)"
    using embedded by (simp add: charge_1_def bank_details_def)
  have c2: "fst (isPiUsBankTransfer demo pi_123 (init ())) = Inr True"
    using embedded g sw c1 by simp
  have c3: "fst (isUSBankTransfer demo ''pi_123'' (init ())) = Inr True"
    using embedded e f g c1 by simp
  have e': "derivedPi demo ''pi_789'' (init ()) = (Inr (Some ''pi_789''), init ())"
    by (simp add: model_defs)
  have f': "paymentIntents_retrieve (stripe demo) ''pi_789'' (remote (init ())) = (Inr pi_789, ())"
    by (simp add: demo_defs)
  have g': "charges pi_789 = None \<and> truthy (latest_charge pi_789)
    \<and> charges_retrieve (stripe demo) (latest_charge pi_789) () =
        (Inr \<lparr>id_Charge = ''ch_3'', payment_intent = Some ''pi_789'',
              payment_method_details = bank_details\<rparr>, ())"
    by (simp add: demo_defs truthy_def)
  have c4: "fst (isUSBankTransfer demo ''pi_789'' (init ())) = Inr True"
    using fallback e' f' g' by (simp add: bank_details_def)
  have c5: "\<not> classification
          (Some (charge_1\<lparr>payment_method_details := Some \<lparr>type = ''US_BANK_ACCOUNT''\<rparr>\<rparr>))"
    using variant by simp
  have c6: "\<not> classification (Some (charge_1\<lparr>payment_method_details := None\<rparr>))"
    using absent by simp
  from sw g c1 c2 c3 g' c4 c5 c6 show ?thesis by simp
qed

subsection \<open>Failures of the network\<close>

text \<open>
  Every path of \<open>isUSBankTransfer\<close> ends in one of three ways: it returns
  \<open>false\<close>; or the catch block ran with the debug flag set on a call that was
  rejected with \<open>undefined\<close> or \<open>null\<close>, and its \<open>TypeError\<close> reaches the caller; or
  it returns a boolean and no network call failed.
\<close>

lemma after_fetch_log:
  assumes d: "derivedPi helper chargeId w = (Inr (Some p), w1)" and p: "p \<noteq> []"
  shows "fst (isUSBankTransfer helper chargeId w) = Inr False
         \<or> (debug helper \<and> fst (isUSBankTransfer helper chargeId w) = Inl TypeError
            \<and> (\<exists>c e. (c, Some e) \<in> set (calls (snd (isUSBankTransfer helper chargeId w)))
                  \<and> (e = Undefined \<or> e = Null)))
         \<or> (\<exists>b n. fst (isUSBankTransfer helper chargeId w) = Inr b
               \<and> calls (snd (isUSBankTransfer helper chargeId w)) = calls w1 @ n
               \<and> (\<forall>x\<in>set n. snd x = None))"
proof -
  obtain r s2 where f: "paymentIntents_retrieve (stripe helper) p (remote w1) = (r, s2)"
    by (cases "paymentIntents_retrieve (stripe helper) p (remote w1)")
  show ?thesis
  proof (cases r)
    case (Inl e)
    with f have "paymentIntents_retrieve (stripe helper) p (remote w1) = (Inl e, s2)"
      by simp
    from isUSBankTransfer_fetch_failed[OF d p this] show ?thesis
      by (cases "debug helper \<and> (e = Undefined \<or> e = Null)") auto
  next
    case (Inr pi)
    let ?w2 = "\<lparr>calls = calls w1 @ [(PaymentIntentsRetrieve p, None)], remote = s2\<rparr>"
    let ?found = "case charges pi of None \<Rightarrow> None
       | Some cl \<Rightarrow> find (\<lambda>c. Some (id_Charge c) = latest_charge pi) (data cl)"
    from Inr f have f': "paymentIntents_retrieve (stripe helper) p (remote w1) = (Inr pi, s2)"
      by simp
    note eq = isUSBankTransfer_fetched[OF d p f']
    show ?thesis
    proof (cases "charges pi = None \<and> \<not> truthy (latest_charge pi)")
      case True
      with eq show ?thesis by simp
    next
      case False
      show ?thesis
      proof (cases ?found)
        case (Some c)
        then obtain cl where "charges pi = Some cl"
          and "find (\<lambda>c. Some (id_Charge c) = latest_charge pi) (data cl) = Some c"
          by (auto split: option.splits)
        from latestCharge_found[OF this, of helper ?w2] eq False show ?thesis
          by (simp add: Let_def)
      next
        case None
        obtain r3 s3 where
          g: "charges_retrieve (stripe helper) (latest_charge pi) (remote ?w2) = (r3, s3)"
          by (cases "charges_retrieve (stripe helper) (latest_charge pi) (remote ?w2)")
        note lc = latestCharge_fallback[OF None g]
        show ?thesis
        proof (cases r3)
          case (Inl e)
          with lc eq False show ?thesis
            by (cases "debug helper \<and> (e = Undefined \<or> e = Null)") (auto simp: Let_def)
        next
          case (Inr c)
          with lc eq False show ?thesis by (simp add: Let_def)
        qed
      qed
    qed
  qed
qed

lemma isUSBankTransfer_log:
  "fst (isUSBankTransfer helper chargeId w) = Inr False
   \<or> (debug helper \<and> fst (isUSBankTransfer helper chargeId w) = Inl TypeError
      \<and> (\<exists>c e. (c, Some e) \<in> set (calls (snd (isUSBankTransfer helper chargeId w)))
            \<and> (e = Undefined \<or> e = Null)))
   \<or> (\<exists>b n. fst (isUSBankTransfer helper chargeId w) = Inr b
         \<and> calls (snd (isUSBankTransfer helper chargeId w)) = calls w @ n
         \<and> (\<forall>x\<in>set n. snd x = None))"
proof -
  consider (pi) "startsWith chargeId ''pi_''" | (py) "startsWith chargeId ''py_''"
    | (other) "\<not> startsWith chargeId ''pi_''" "\<not> startsWith chargeId ''py_''"
    by blast
  then show ?thesis
  proof cases
    case pi
    from after_fetch_log[OF derivedPi_pi[OF pi, of helper w] startsWith_not_Nil[OF pi]]
    show ?thesis .
  next
    case py
    obtain r s1 where
      f: "charges_retrieve (stripe helper) (Some chargeId) (remote w) = (r, s1)"
      by (cases "charges_retrieve (stripe helper) (Some chargeId) (remote w)")
    note dp = derivedPi_py[OF py f]
    show ?thesis
    proof (cases r)
      case (Inl e)
      with dp have "derivedPi helper chargeId w =
        (Inl e, \<lparr>calls = calls w @ [(ChargesRetrieve (Some chargeId), Some e)], remote = s1\<rparr>)"
        by simp
      from isUSBankTransfer_threw[OF this] show ?thesis
        by (cases "debug helper \<and> (e = Undefined \<or> e = Null)") auto
    next
      case (Inr charge)
      let ?w1 = "\<lparr>calls = calls w @ [(ChargesRetrieve (Some chargeId), None)], remote = s1\<rparr>"
      show ?thesis
      proof (cases "truthy (payment_intent charge)")
        case True
        then obtain p where p: "payment_intent charge = Some p" "p \<noteq> []"
          by (auto simp: truthy_def split: option.splits)
        with Inr dp True have "derivedPi helper chargeId w = (Inr (Some p), ?w1)" by simp
        from after_fetch_log[OF this p(2)] show ?thesis by auto
      next
        case False
        with Inr dp have "derivedPi helper chargeId w = (Inr None, ?w1)" by simp
        from isUSBankTransfer_underived[OF this] show ?thesis by (simp add: truthy_def)
      qed
    qed
  next
    case other
    from isUSBankTransfer_underived[OF derivedPi_other[OF other, of helper w]] show ?thesis
      by (simp add: truthy_def)
  qed
qed

text \<open>
  So the catch block keeps its promise whenever the debug flag is off or no call is
  rejected with \<open>undefined\<close> or \<open>null\<close>: the result is a boolean, and it is \<open>false\<close>
  when a network call failed.
\<close>

lemma isUSBankTransfer_catches:
  assumes "\<not> debug helper
           \<or> (\<forall>c e. (c, Some e) \<in> set (calls (snd (isUSBankTransfer helper chargeId (init s))))
                 \<longrightarrow> e \<noteq> Undefined \<and> e \<noteq> Null)"
  shows "(\<exists>b. fst (isUSBankTransfer helper chargeId (init s)) = Inr b)
         \<and> ((\<exists>c e. (c, Some e) \<in> set (calls (snd (isUSBankTransfer helper chargeId (init s)))))
              \<longrightarrow> fst (isUSBankTransfer helper chargeId (init s)) = Inr False)"
  using assms isUSBankTransfer_log[of helper chargeId "init s"]
  by (fastforce simp: init_def)

text \<open>
  C2 says that \<open>isUSBankTransfer\<close> returns \<open>false\<close> when a network call fails, and
  never lets an error reach the caller. The code breaks it in its catch block: with
  \<open>DEBUG=true\<close> the block reads \<open>err.message\<close> before it returns \<open>false\<close>, and when
  the payment-intent fetch for \<open>pi_123\<close> is rejected with \<open>undefined\<close>, that read
  raises a \<open>TypeError\<close>, which \<open>isUSBankTransfer\<close> passes on to its caller instead of
  returning \<open>false\<close>.
\<close>

theorem isUSBankTransfer_catch_block_throws:
  "debug demo_reject
   \<and> paymentIntents_retrieve (stripe demo_reject) ''pi_123'' (remote (init ()))
       = (Inl Undefined, ())
   \<and> isUSBankTransfer demo_reject ''pi_123'' (init ())
       = (Inl TypeError,
          \<lparr>calls = [(PaymentIntentsRetrieve ''pi_123'', Some Undefined)], remote = ()\<rparr>)"
  by (simp add: model_defs demo_defs)

subsection \<open>The fallback fetch\<close>

text \<open>
  C3. Let the resolution yield the non-empty identifier \<open>p\<close> and the fetch of \<open>p\<close>
  return the payment intent \<open>pi\<close>. If the embedded list of \<open>pi\<close> has an entry whose
  id equals \<open>latest_charge\<close>, the fetch of \<open>p\<close> is the last network call: there is no
  fallback fetch. If \<open>pi\<close> carries a \<open>latest_charge\<close> (a non-empty string) and the
  embedded list is missing or has no such entry, the fetch of \<open>p\<close> is followed by
  exactly one more call, the charge fetch by \<open>latest_charge\<close>.
\<close>

theorem fallback_fetch_count:
  assumes d: "derivedPi helper chargeId w = (Inr (Some p), w1)" and p: "p \<noteq> []"
    and f: "paymentIntents_retrieve (stripe helper) p (remote w1) = (Inr pi, s2)"
  shows "((\<exists>cl c. charges pi = Some cl \<and> c \<in> set (data cl)
             \<and> Some (id_Charge c) = latest_charge pi)
          \<longrightarrow> calls (snd (isUSBankTransfer helper chargeId w))
                = calls w1 @ [(PaymentIntentsRetrieve p, None)])
       \<and> (truthy (latest_charge pi)
            \<and> (charges pi = None
                \<or> (\<exists>cl. charges pi = Some cl
                     \<and> (\<forall>c\<in>set (data cl). Some (id_Charge c) \<noteq> latest_charge pi)))
          \<longrightarrow> (\<exists>outcome. calls (snd (isUSBankTransfer helper chargeId w))
                = calls w1 @ [(PaymentIntentsRetrieve p, None),
                              (ChargesRetrieve (latest_charge pi), outcome)]))"
proof (intro conjI impI)
  let ?w2 = "\<lparr>calls = calls w1 @ [(PaymentIntentsRetrieve p, None)], remote = s2\<rparr>"
  note eq = isUSBankTransfer_fetched[OF d p f]
  {
    assume "\<exists>cl c. charges pi = Some cl \<and> c \<in> set (data cl)
             \<and> Some (id_Charge c) = latest_charge pi"
    then obtain cl c where cl: "charges pi = Some cl" and c: "c \<in> set (data cl)"
      and m: "Some (id_Charge c) = latest_charge pi"
      by blast
    from find_member[of c "data cl" "\<lambda>c. Some (id_Charge c) = latest_charge pi", OF c m]
    obtain c' where "find (\<lambda>c. Some (id_Charge c) = latest_charge pi) (data cl) = Some c'"
      by blast
    from latestCharge_found[OF cl this, of helper ?w2] eq cl
    show "calls (snd (isUSBankTransfer helper chargeId w))
                = calls w1 @ [(PaymentIntentsRetrieve p, None)]"
      by (simp add: Let_def)
  }
  {
    assume a: "truthy (latest_charge pi)
            \<and> (charges pi = None
                \<or> (\<exists>cl. charges pi = Some cl
                     \<and> (\<forall>c\<in>set (data cl). Some (id_Charge c) \<noteq> latest_charge pi)))"
    then have nf: "(case charges pi of None \<Rightarrow> None
       | Some cl \<Rightarrow> find (\<lambda>c. Some (id_Charge c) = latest_charge pi) (data cl)) = None"
      by (auto simp: find_None_iff)
    obtain r3 s3 where g: "charges_retrieve (stripe helper) (latest_charge pi) (remote ?w2) = (r3, s3)"
      by (cases "charges_retrieve (stripe helper) (latest_charge pi) (remote ?w2)")
    from latestCharge_fallback[OF nf g] eq a
    show "\<exists>outcome. calls (snd (isUSBankTransfer helper chargeId w))
                = calls w1 @ [(PaymentIntentsRetrieve p, None),
                              (ChargesRetrieve (latest_charge pi), outcome)]"
      by (cases r3) (simp_all add: Let_def)
  }
qed

text \<open>
  At \<open>pi_123\<close> the charge is embedded and one call is made; at \<open>pi_456\<close> the
  embedded list is empty and the second call fetches \<open>ch_2\<close>.
\<close>

theorem fallback_fetch_count_witness:
  "derivedPi demo ''pi_123'' (init ()) = (Inr (Some ''pi_123''), init ())
   \<and> paymentIntents_retrieve (stripe demo) ''pi_123'' (remote (init ())) = (Inr pi_123, ())
   \<and> charge_1 \<in> set (data \<lparr>data = [charge_1]\<rparr>)
   \<and> Some (id_Charge charge_1) = latest_charge pi_123
   \<and> calls (snd (isUSBankTransfer demo ''pi_123'' (init ())))
       = [(PaymentIntentsRetrieve ''pi_123'', None)]
   \<and> derivedPi demo ''pi_456'' (init ()) = (Inr (Some ''pi_456''), init ())
   \<and> paymentIntents_retrieve (stripe demo) ''pi_456'' (remote (init ())) = (Inr pi_456, ())
   \<and> truthy (latest_charge pi_456)
   \<and> charges pi_456 = Some \<lparr>data = []\<rparr>
   \<and> length (calls (snd (isUSBankTransfer demo ''pi_456'' (init ())))) = 2
   \<and> fst (calls (snd (isUSBankTransfer demo ''pi_456'' (init ()))) ! 1)
       = ChargesRetrieve (Some ''ch_2'')"
proof -
  have d1: "derivedPi demo ''pi_123'' (init ()) = (Inr (Some ''pi_123''), init ())"
    by (simp add: model_defs)
  have f1: "paymentIntents_retrieve (stripe demo) ''pi_123'' (remote (init ())) = (Inr pi_123, ())"
    by (simp add: demo_defs)
  have h1: "charges pi_123 = Some \<lparr>data = [charge_1]\<rparr>
            \<and> charge_1 \<in> set (data \<lparr>data = [charge_1]\<rparr>)
            \<and> Some (id_Charge charge_1) = latest_charge pi_123"
    by (simp add: demo_defs)
  have n1: "''pi_123'' \<noteq> []" by simp
  from fallback_fetch_count[OF d1 n1 f1] h1
  have c1: "calls (snd (isUSBankTransfer demo ''pi_123'' (init ())))
       = [(PaymentIntentsRetrieve ''pi_123'', None)]"
    by (auto simp: init_def)
  have d2: "derivedPi demo ''pi_456'' (init ()) = (Inr (Some ''pi_456''), init ())"
    by (simp add: model_defs)
  have f2: "paymentIntents_retrieve (stripe demo) ''pi_456'' (remote (init ())) = (Inr pi_456, ())"
    by (simp add: demo_defs)
  have h2: "truthy (latest_charge pi_456) \<and> charges pi_456 = Some \<lparr>data = []\<rparr>
            \<and> latest_charge pi_456 = Some ''ch_2''"
    by (simp add: demo_defs truthy_def)
  have n2: "''pi_456'' \<noteq> []" by simp
  from fallback_fetch_count[OF d2 n2 f2] h2
  have c2: "\<exists>outcome. calls (snd (isUSBankTransfer demo ''pi_456'' (init ())))
       = [(PaymentIntentsRetrieve ''pi_456'', None), (ChargesRetrieve (Some ''ch_2''), outcome)]"
    by (auto simp: init_def)
  then have c3: "length (calls (snd (isUSBankTransfer demo ''pi_456'' (init ())))) = 2
   \<and> fst (calls (snd (isUSBankTransfer demo ''pi_456'' (init ()))) ! 1)
       = ChargesRetrieve (Some ''ch_2'')"
    by auto
  from d1 f1 h1 c1 d2 f2 h2 c3 show ?thesis by (simp add: truthy_def)
qed

subsection \<open>Resolution of the identifier\<close>

text \<open>
  C4, as the code has it. For every identifier with the prefix \<open>py_\<close>,
  \<open>isUSBankTransfer\<close> first fetches the charge by that identifier, and if the fetched
  record references a payment intent \<open>p\<close> (a non-empty string), \<open>p\<close> is the resolved
  identifier and the next call is the fetch of the payment intent \<open>p\<close>. For an
  identifier with neither the prefix \<open>pi_\<close> nor \<open>py_\<close>, no network call is made and
  the result is \<open>false\<close>.
\<close>

theorem charge_prefix_resolution:
  "(startsWith chargeId ''py_'' \<longrightarrow>
      (\<exists>outcome rest. calls (snd (isUSBankTransfer helper chargeId w))
          = calls w @ (ChargesRetrieve (Some chargeId), outcome) # rest)
      \<and> (\<forall>charge s1 p.
            charges_retrieve (stripe helper) (Some chargeId) (remote w) = (Inr charge, s1)
            \<and> payment_intent charge = Some p \<and> p \<noteq> []
           \<longrightarrow> fst (derivedPi helper chargeId w) = Inr (Some p)
               \<and> (\<exists>outcome rest. calls (snd (isUSBankTransfer helper chargeId w))
                     = calls w @ (ChargesRetrieve (Some chargeId), None)
                                # (PaymentIntentsRetrieve p, outcome) # rest)))
   \<and> (\<not> startsWith chargeId ''pi_'' \<and> \<not> startsWith chargeId ''py_''
        \<longrightarrow> isUSBankTransfer helper chargeId w = (Inr False, w))"
proof (intro conjI impI allI)
  assume py: "startsWith chargeId ''py_''"
  obtain r s1 where f: "charges_retrieve (stripe helper) (Some chargeId) (remote w) = (r, s1)"
    by (cases "charges_retrieve (stripe helper) (Some chargeId) (remote w)")
  note dp = derivedPi_py[OF py f]
  let ?w1 = "\<lparr>calls = calls w @ [(ChargesRetrieve (Some chargeId), None)], remote = s1\<rparr>"
  show "\<exists>outcome rest. calls (snd (isUSBankTransfer helper chargeId w))
          = calls w @ (ChargesRetrieve (Some chargeId), outcome) # rest"
  proof (cases r)
    case (Inl e)
    with dp have "derivedPi helper chargeId w =
      (Inl e, \<lparr>calls = calls w @ [(ChargesRetrieve (Some chargeId), Some e)], remote = s1\<rparr>)"
      by simp
    from isUSBankTransfer_threw[OF this] show ?thesis by simp
  next
    case (Inr charge)
    show ?thesis
    proof (cases "truthy (payment_intent charge)")
      case True
      then obtain p where p: "payment_intent charge = Some p" "p \<noteq> []"
        by (auto simp: truthy_def split: option.splits)
      with Inr dp True have "derivedPi helper chargeId w = (Inr (Some p), ?w1)" by simp
      from isUSBankTransfer_calls_after_derived[OF this p(2)] show ?thesis by auto
    next
      case False
      with Inr dp have "derivedPi helper chargeId w = (Inr None, ?w1)" by simp
      from isUSBankTransfer_underived[OF this] show ?thesis by (simp add: truthy_def)
    qed
  qed
next
  fix charge s1 p
  assume py: "startsWith chargeId ''py_''"
    and a: "charges_retrieve (stripe helper) (Some chargeId) (remote w) = (Inr charge, s1)
            \<and> payment_intent charge = Some p \<and> p \<noteq> []"
  let ?w1 = "\<lparr>calls = calls w @ [(ChargesRetrieve (Some chargeId), None)], remote = s1\<rparr>"
  from a have f: "charges_retrieve (stripe helper) (Some chargeId) (remote w) = (Inr charge, s1)"
    and p: "p \<noteq> []" by simp_all
  from derivedPi_py[OF py f] a have d: "derivedPi helper chargeId w = (Inr (Some p), ?w1)"
    by (simp add: truthy_def)
  then show "fst (derivedPi helper chargeId w) = Inr (Some p)" by simp
  from isUSBankTransfer_calls_after_derived[OF d p]
  show "\<exists>outcome rest. calls (snd (isUSBankTransfer helper chargeId w))
          = calls w @ (ChargesRetrieve (Some chargeId), None)
                     # (PaymentIntentsRetrieve p, outcome) # rest"
    by simp
next
  assume "\<not> startsWith chargeId ''pi_'' \<and> \<not> startsWith chargeId ''py_''"
  then have "derivedPi helper chargeId w = (Inr None, w)"
    by (simp add: derivedPi_other)
  from isUSBankTransfer_underived[OF this] show "isUSBankTransfer helper chargeId w = (Inr False, w)"
    by (simp add: truthy_def)
qed

text \<open>
  At \<open>py_777\<close>, whose charge references \<open>pi_123\<close>, and at \<open>ch_3\<close>, which has
  neither prefix.
\<close>

theorem charge_prefix_resolution_witness:
  "startsWith ''py_777'' ''py_''
   \<and> charges_retrieve (stripe demo) (Some ''py_777'') (remote (init ()))
       = (Inr \<lparr>id_Charge = ''py_777'', payment_intent = Some ''pi_123'',
               payment_method_details = bank_details\<rparr>, ())
   \<and> fst (derivedPi demo ''py_777'' (init ())) = Inr (Some ''pi_123'')
   \<and> fst (calls (snd (isUSBankTransfer demo ''py_777'' (init ()))) ! 0)
       = ChargesRetrieve (Some ''py_777'')
   \<and> fst (calls (snd (isUSBankTransfer demo ''py_777'' (init ()))) ! 1)
       = PaymentIntentsRetrieve ''pi_123''
   \<and> \<not> startsWith ''ch_3'' ''pi_'' \<and> \<not> startsWith ''ch_3'' ''py_''
   \<and> isUSBankTransfer demo ''ch_3'' (init ()) = (Inr False, init ())"
proof -
  note py = charge_prefix_resolution[of "''py_777''" demo "init ()"]
  note ch = charge_prefix_resolution[of "''ch_3''" demo "init ()"]
  have sw: "startsWith ''py_777'' ''py_''" by (simp add: startsWith_def)
  have f: "charges_retrieve (stripe demo) (Some ''py_777'') (remote (init ()))
       = (Inr \<lparr>id_Charge = ''py_777'', payment_intent = Some ''pi_123'',
               payment_method_details = bank_details\<rparr>, ())"
    by (simp add: demo_defs)
  from py sw f have c1: "fst (derivedPi demo ''py_777'' (init ())) = Inr (Some ''pi_123'')"
    and "\<exists>outcome rest. calls (snd (isUSBankTransfer demo ''py_777'' (init ())))
           = calls (init ()) @ (ChargesRetrieve (Some ''py_777''), None)
               # (PaymentIntentsRetrieve ''pi_123'', outcome) # rest"
    by simp_all
  then have c2: "fst (calls (snd (isUSBankTransfer demo ''py_777'' (init ()))) ! 0)
       = ChargesRetrieve (Some ''py_777'')
   \<and> fst (calls (snd (isUSBankTransfer demo ''py_777'' (init ()))) ! 1)
       = PaymentIntentsRetrieve ''pi_123''"
    by (auto simp: init_def)
  have nsw: "\<not> startsWith ''ch_3'' ''pi_'' \<and> \<not> startsWith ''ch_3'' ''py_''"
    by (simp add: startsWith_def)
  with ch have c3: "isUSBankTransfer demo ''ch_3'' (init ()) = (Inr False, init ())"
    by simp
  from sw f c1 c2 nsw c3 show ?thesis by simp
qed

text \<open>
  C4 as stated fails: \<open>ch_3\<close> does not carry the prefix \<open>pi_\<close>, the client knows a
  charge \<open>ch_3\<close> that references the payment intent \<open>pi_789\<close>, and yet
  \<open>isUSBankTransfer\<close> makes no network call and returns \<open>false\<close>.
\<close>

theorem charge_fetch_without_pi_prefix_counterexample:
  "\<not> startsWith ''ch_3'' ''pi_''
   \<and> fst (charges_retrieve (stripe demo) (Some ''ch_3'') ())
       = Inr \<lparr>id_Charge = ''ch_3'', payment_intent = Some ''pi_789'',
              payment_method_details = Some \<lparr>type = ''us_bank_account''\<rparr>\<rparr>
   \<and> isUSBankTransfer demo ''ch_3'' (init ()) = (Inr False, \<lparr>calls = [], remote = ()\<rparr>)"
  by (simp add: model_defs demo_defs)

text \<open>
  C5. For every identifier with the prefix \<open>py_\<close>, the resolution makes exactly one
  network call, the charge fetch by that identifier; and if the fetched charge carries
  no payment-intent reference, \<open>isUSBankTransfer\<close> returns \<open>false\<close> and that fetch is
  the only call it made.
\<close>

theorem py_prefix_one_lookup:
  "startsWith chargeId ''py_'' \<Longrightarrow>
     (\<exists>outcome. calls (snd (derivedPi helper chargeId w))
         = calls w @ [(ChargesRetrieve (Some chargeId), outcome)])
     \<and> (\<forall>charge s1.
           charges_retrieve (stripe helper) (Some chargeId) (remote w) = (Inr charge, s1)
           \<and> \<not> truthy (payment_intent charge)
          \<longrightarrow> isUSBankTransfer helper chargeId w
                = (Inr False,
                   \<lparr>calls = calls w @ [(ChargesRetrieve (Some chargeId), None)],
                    remote = s1\<rparr>))"
proof (intro conjI allI impI)
  assume py: "startsWith chargeId ''py_''"
  obtain r s1 where f: "charges_retrieve (stripe helper) (Some chargeId) (remote w) = (r, s1)"
    by (cases "charges_retrieve (stripe helper) (Some chargeId) (remote w)")
  from derivedPi_py[OF py f]
  show "\<exists>outcome. calls (snd (derivedPi helper chargeId w))
         = calls w @ [(ChargesRetrieve (Some chargeId), outcome)]"
    by simp
next
  fix charge s1
  assume py: "startsWith chargeId ''py_''"
    and a: "charges_retrieve (stripe helper) (Some chargeId) (remote w) = (Inr charge, s1)
           \<and> \<not> truthy (payment_intent charge)"
  let ?w1 = "\<lparr>calls = calls w @ [(ChargesRetrieve (Some chargeId), None)], remote = s1\<rparr>"
  from a have f: "charges_retrieve (stripe helper) (Some chargeId) (remote w) = (Inr charge, s1)"
    by simp
  from derivedPi_py[OF py f] a have "derivedPi helper chargeId w = (Inr None, ?w1)"
    by simp
  from isUSBankTransfer_underived[OF this]
  show "isUSBankTransfer helper chargeId w = (Inr False, ?w1)"
    by (simp add: truthy_def)
qed

text \<open>
  The second scenario: the charge \<open>py_999\<close> has no \<open>payment_intent\<close>.
\<close>

theorem py_prefix_one_lookup_witness:
  "startsWith ''py_999'' ''py_''
   \<and> charges_retrieve (stripe demo) (Some ''py_999'') (remote (init ()))
       = (Inr \<lparr>id_Charge = ''py_999'', payment_intent = None,
               payment_method_details = None\<rparr>, ())
   \<and> \<not> truthy None
   \<and> length (calls (snd (derivedPi demo ''py_999'' (init ())))) = 1
   \<and> isUSBankTransfer demo ''py_999'' (init ())
       = (Inr False, \<lparr>calls = [(ChargesRetrieve (Some ''py_999''), None)], remote = ()\<rparr>)"
proof -
  have sw: "startsWith ''py_999'' ''py_''" by (simp add: startsWith_def)
  note t = py_prefix_one_lookup[OF sw, of demo "init ()"]
  have f: "charges_retrieve (stripe demo) (Some ''py_999'') (remote (init ()))
       = (Inr \<lparr>id_Charge = ''py_999'', payment_intent = None,
               payment_method_details = None\<rparr>, ())"
    by (simp add: demo_defs)
  have nt: "\<not> truthy None" by (simp add: truthy_def)
  from t have c1: "length (calls (snd (derivedPi demo ''py_999'' (init ())))) = 1"
    by (auto simp: init_def)
  from t f nt have c2: "isUSBankTransfer demo ''py_999'' (init ())
       = (Inr False, \<lparr>calls = [(ChargesRetrieve (Some ''py_999''), None)], remote = ()\<rparr>)"
    by (simp add: init_def)
  from sw f nt c1 c2 show ?thesis by simp
qed

text \<open>
  C6. For every identifier with the prefix \<open>pi_\<close>, the resolution yields the
  identifier itself and makes no network call, so that the first call of
  \<open>isUSBankTransfer\<close> is the fetch of the payment intent by that identifier.
\<close>

theorem pi_prefix_no_lookup:
  "startsWith chargeId ''pi_'' \<Longrightarrow>
     derivedPi helper chargeId w = (Inr (Some chargeId), w)
     \<and> (\<exists>outcome rest. calls (snd (isUSBankTransfer helper chargeId w))
           = calls w @ (PaymentIntentsRetrieve chargeId, outcome) # rest)"
proof (intro conjI)
  assume pi: "startsWith chargeId ''pi_''"
  show d: "derivedPi helper chargeId w = (Inr (Some chargeId), w)"
    by (rule derivedPi_pi[OF pi])
  from isUSBankTransfer_calls_after_derived[OF d startsWith_not_Nil[OF pi]]
  show "\<exists>outcome rest. calls (snd (isUSBankTransfer helper chargeId w))
           = calls w @ (PaymentIntentsRetrieve chargeId, outcome) # rest" .
qed

text \<open>
  At \<open>pi_123\<close>.
\<close>

theorem pi_prefix_no_lookup_witness:
  "startsWith ''pi_123'' ''pi_''
   \<and> derivedPi demo ''pi_123'' (init ()) = (Inr (Some ''pi_123''), init ())
   \<and> fst (hd (calls (snd (isUSBankTransfer demo ''pi_123'' (init ())))))
       = PaymentIntentsRetrieve ''pi_123''"
proof -
  have sw: "startsWith ''pi_123'' ''pi_''" by (simp add: startsWith_def)
  from pi_prefix_no_lookup[OF sw, of demo "init ()"] sw show ?thesis
    by (auto simp: init_def)
qed

subsection \<open>Customer lookup\<close>

text \<open>
  C7. For every email string, \<open>getCustomersByEmail\<close> returns the \<open>data\<close> of the
  search response when the search succeeds, and \<open>undefined\<close> when the search throws;
  \<open>undefined\<close> is not the empty list.
\<close>

theorem getCustomersByEmail_result:
  "(\<forall>searchResult s1.
       customers_search (stripe helper) (''email:'' @ [CHR 0x22] @ email_arg @ [CHR 0x22]) (remote w)
         = (Inr searchResult, s1)
      \<longrightarrow> fst (getCustomersByEmail helper email_arg w) = Inr (Some (data searchResult)))
   \<and> (\<forall>err s1.
       customers_search (stripe helper) (''email:'' @ [CHR 0x22] @ email_arg @ [CHR 0x22]) (remote w)
         = (Inl err, s1)
      \<longrightarrow> fst (getCustomersByEmail helper email_arg w) = Inr None
          \<and> fst (getCustomersByEmail helper email_arg w) \<noteq> Inr (Some []))"
  by (simp add: getCustomersByEmail_def try_catch_def await_def resolve_def network_def Let_def)

text \<open>
  The last scenario: the search for \<open>a@b.com\<close> throws and the result is
  \<open>undefined\<close>; with a client that finds nobody the result is the empty list.
\<close>

theorem getCustomersByEmail_result_witness:
  "customers_search (stripe demo) (''email:'' @ [CHR 0x22] @ ''a@b.com'' @ [CHR 0x22]) (remote (init ()))
     = (Inl (Error ''search failed''), ())
   \<and> fst (getCustomersByEmail demo ''a@b.com'' (init ())) = Inr None
   \<and> customers_search (stripe demo_empty) (''email:'' @ [CHR 0x22] @ ''a@b.com'' @ [CHR 0x22])
       (remote (init ())) = (Inr \<lparr>data = []\<rparr>, ())
   \<and> fst (getCustomersByEmail demo_empty ''a@b.com'' (init ())) = Inr (Some [])"
proof -
  have f: "customers_search (stripe demo) (''email:'' @ [CHR 0x22] @ ''a@b.com'' @ [CHR 0x22])
       (remote (init ())) = (Inl (Error ''search failed''), ())"
    by (simp add: demo_defs)
  have g: "customers_search (stripe demo_empty) (''email:'' @ [CHR 0x22] @ ''a@b.com'' @ [CHR 0x22])
       (remote (init ())) = (Inr \<lparr>data = []\<rparr>, ())"
    by (simp add: demo_defs)
  from getCustomersByEmail_result[of demo "''a@b.com''" "init ()"] f
  have c1: "fst (getCustomersByEmail demo ''a@b.com'' (init ())) = Inr None"
    by blast
  from getCustomersByEmail_result[of demo_empty "''a@b.com''" "init ()"] g
  have c2: "fst (getCustomersByEmail demo_empty ''a@b.com'' (init ())) = Inr (Some [])"
    by fastforce
  from f g c1 c2 show ?thesis by simp
qed

subsection \<open>A payment intent without charge data\<close>

text \<open>
  C8. Let the resolution yield the non-empty identifier \<open>p\<close> and the fetch of \<open>p\<close>
  return a payment intent with neither an embedded charge list nor a
  \<open>latest_charge\<close>. Then \<open>isUSBankTransfer\<close> returns \<open>false\<close>, and the fetch of
  \<open>p\<close> is its last network call.
\<close>

theorem no_charge_data_false:
  assumes "derivedPi helper chargeId w = (Inr (Some p), w1)" and "p \<noteq> []"
    and "paymentIntents_retrieve (stripe helper) p (remote w1) = (Inr pi, s2)"
    and "charges pi = None" and "\<not> truthy (latest_charge pi)"
  shows "isUSBankTransfer helper chargeId w
           = (Inr False, \<lparr>calls = calls w1 @ [(PaymentIntentsRetrieve p, None)], remote = s2\<rparr>)"
  using isUSBankTransfer_fetched[OF assms(1-3)] assms(4,5) by simp

text \<open>
  At \<open>pi_000\<close>.
\<close>

theorem no_charge_data_false_witness:
  "derivedPi demo ''pi_000'' (init ()) = (Inr (Some ''pi_000''), init ())
   \<and> paymentIntents_retrieve (stripe demo) ''pi_000'' (remote (init ())) = (Inr pi_000, ())
   \<and> charges pi_000 = None \<and> \<not> truthy (latest_charge pi_000)
   \<and> isUSBankTransfer demo ''pi_000'' (init ())
       = (Inr False, \<lparr>calls = [(PaymentIntentsRetrieve ''pi_000'', None)], remote = ()\<rparr>)"
proof -
  have d: "derivedPi demo ''pi_000'' (init ()) = (Inr (Some ''pi_000''), init ())"
    by (simp add: model_defs)
  have n: "''pi_000'' \<noteq> []" by simp
  have f: "paymentIntents_retrieve (stripe demo) ''pi_000'' (remote (init ())) = (Inr pi_000, ())"
    by (simp add: demo_defs)
  have c: "charges pi_000 = None" by (simp add: pi_000_def)
  have l: "\<not> truthy (latest_charge pi_000)" by (simp add: pi_000_def truthy_def)
  from no_charge_data_false[OF d n f c l] d f c l show ?thesis
    by (simp add: init_def)
qed

subsection \<open>isPiUsBankTransfer\<close>

text \<open>
  C9. For every payment intent, \<open>isPiUsBankTransfer\<close> makes no network call (the
  world is left as it was) and returns a boolean; a missing embedded list gives
  \<open>false\<close>, and so does an embedded list without an entry for \<open>latest_charge\<close>.
\<close>

theorem isPiUsBankTransfer_no_network:
  "snd (isPiUsBankTransfer helper paymentIntent w) = w
   \<and> (\<exists>b. fst (isPiUsBankTransfer helper paymentIntent w) = Inr b)
   \<and> (charges paymentIntent = None \<longrightarrow> fst (isPiUsBankTransfer helper paymentIntent w) = Inr False)
   \<and> ((\<exists>cl. charges paymentIntent = Some cl
         \<and> (\<forall>c\<in>set (data cl). Some (id_Charge c) \<noteq> latest_charge paymentIntent))
       \<longrightarrow> fst (isPiUsBankTransfer helper paymentIntent w) = Inr False)"
  by (auto simp: isPiUsBankTransfer_eq find_no_member classification_def)

text \<open>
  At \<open>pi_789\<close>, which has no embedded list, and at \<open>pi_456\<close>, whose list is
  empty while \<open>latest_charge\<close> is \<open>ch_2\<close>.
\<close>

theorem isPiUsBankTransfer_no_network_witness:
  "charges pi_789 = None
   \<and> isPiUsBankTransfer demo pi_789 (init ()) = (Inr False, init ())
   \<and> charges pi_456 = Some \<lparr>data = []\<rparr>
   \<and> latest_charge pi_456 = Some ''ch_2''
   \<and> isPiUsBankTransfer demo pi_456 (init ()) = (Inr False, init ())"
proof -
  have a: "charges pi_789 = None" by (simp add: pi_789_def)
  have b: "charges pi_456 = Some \<lparr>data = []\<rparr> \<and> latest_charge pi_456 = Some ''ch_2''"
    by (simp add: pi_456_def)
  from isPiUsBankTransfer_no_network[of demo pi_789 "init ()"] a
  have c1: "isPiUsBankTransfer demo pi_789 (init ()) = (Inr False, init ())"
    by (simp add: prod_eq_iff)
  from isPiUsBankTransfer_no_network[of demo pi_456 "init ()"] b
  have c2: "isPiUsBankTransfer demo pi_456 (init ()) = (Inr False, init ())"
    by (simp add: prod_eq_iff)
  from a b c1 c2 show ?thesis by simp
qed

text \<open>
  C10. For every payment intent whose \<open>id\<close> is absent, empty or without the prefix
  \<open>pi_\<close>, \<open>isPiUsBankTransfer\<close> returns \<open>false\<close>, whatever its embedded list
  holds.
\<close>

theorem isPiUsBankTransfer_requires_pi_prefix:
  "id_PaymentIntent paymentIntent = None \<or> id_PaymentIntent paymentIntent = Some []
   \<or> (\<exists>i. id_PaymentIntent paymentIntent = Some i \<and> \<not> startsWith i ''pi_'')
   \<Longrightarrow> isPiUsBankTransfer helper paymentIntent w = (Inr False, w)"
  by (auto simp: isPiUsBankTransfer_eq dest: startsWith_not_Nil)

text \<open>
  The payment intent \<open>pi_123\<close> embeds its latest charge, a bank transfer, and is
  classified \<open>true\<close>; with its \<open>id\<close> removed, emptied or changed to \<open>py_123\<close> it
  is classified \<open>false\<close>.
\<close>

theorem isPiUsBankTransfer_requires_pi_prefix_witness:
  "fst (isPiUsBankTransfer demo pi_123 (init ())) = Inr True
   \<and> isPiUsBankTransfer demo (pi_123\<lparr>id_PaymentIntent := None\<rparr>) (init ()) = (Inr False, init ())
   \<and> isPiUsBankTransfer demo (pi_123\<lparr>id_PaymentIntent := Some []\<rparr>) (init ()) = (Inr False, init ())
   \<and> \<not> startsWith ''py_123'' ''pi_''
   \<and> isPiUsBankTransfer demo (pi_123\<lparr>id_PaymentIntent := Some ''py_123''\<rparr>) (init ())
       = (Inr False, init ())"
proof -
  have t: "fst (isPiUsBankTransfer demo pi_123 (init ())) = Inr True"
    by (simp add: model_defs demo_defs)
  have c1: "isPiUsBankTransfer demo (pi_123\<lparr>id_PaymentIntent := None\<rparr>) (init ()) = (Inr False, init ())"
    by (rule isPiUsBankTransfer_requires_pi_prefix) simp
  have c2: "isPiUsBankTransfer demo (pi_123\<lparr>id_PaymentIntent := Some []\<rparr>) (init ()) = (Inr False, init ())"
    by (rule isPiUsBankTransfer_requires_pi_prefix) simp
  have n: "\<not> startsWith ''py_123'' ''pi_''" by (simp add: startsWith_def)
  have c3: "isPiUsBankTransfer demo (pi_123\<lparr>id_PaymentIntent := Some ''py_123''\<rparr>) (init ())
       = (Inr False, init ())"
    by (rule isPiUsBankTransfer_requires_pi_prefix) (simp add: n)
  from t c1 c2 n c3 show ?thesis by simp
qed

end
